theory Spec2Isabelle
  imports Complex_Main "HOL-Library.Stream"
begin

section \<open>Data model of \<^verbatim>\<open>complete_assignment_demo.py\<close>\<close>

text \<open>
  Python floats are modelled as exact reals: every statement below is about the
  arithmetic the source writes down, not about IEEE rounding.  Python's unbounded
  integers are \<^typ>\<open>int\<close>.  Strings are byte strings (\<^typ>\<open>string\<close>), so the text
  functions below cover ASCII input.
\<close>

datatype Difficulty = EASY | MEDIUM | HARD

datatype CoordinationMode = HIERARCHICAL | COLLABORATIVE | COMPETITIVE

datatype py_error = ZeroDivisionError | ValueError | StopIteration | IndexError

text \<open>
  A Python \<^verbatim>\<open>dict\<close> with string keys keeps insertion order, which
  \<^verbatim>\<open>items()\<close> and \<^verbatim>\<open>values()\<close> expose: an association list.  Assigning
  to a present key keeps its position, assigning to a new key appends.
\<close>

type_synonym 'v dict = "(string \<times> 'v) list"

fun dict_lookup :: "'v dict \<Rightarrow> string \<Rightarrow> 'v option" where
  "dict_lookup [] k = None"
| "dict_lookup ((k', v) # d) k = (if k' = k then Some v else dict_lookup d k)"

definition dict_get :: "'v dict \<Rightarrow> string \<Rightarrow> 'v \<Rightarrow> 'v" where
  \<comment> \<open>\<^verbatim>\<open>d.get(k, default)\<close>\<close>
  "dict_get d k dflt = (case dict_lookup d k of None \<Rightarrow> dflt | Some v \<Rightarrow> v)"

fun dict_set :: "'v dict \<Rightarrow> string \<Rightarrow> 'v \<Rightarrow> 'v dict" where
  \<comment> \<open>\<^verbatim>\<open>d[k] = v\<close>\<close>
  "dict_set [] k v = [(k, v)]"
| "dict_set ((k', v') # d) k v = (if k' = k then (k, v) # d else (k', v') # dict_set d k v)"

definition dict_values :: "'v dict \<Rightarrow> 'v list" where
  "dict_values d = map snd d"

definition dict_keys :: "'v dict \<Rightarrow> string list" where
  "dict_keys d = map fst d"

definition wf_dict :: "'v dict \<Rightarrow> bool" where
  \<comment> \<open>a Python dict holds each key once\<close>
  "wf_dict d = distinct (dict_keys d)"

record StudentProfile =
  name :: string
  student_id :: string
  created_at :: string
  preferred_topics :: "string list"
  preferred_difficulty :: string
  learning_style :: string
  overall_performance :: real
  topic_performance :: "real dict"
  difficulty_performance :: "real dict"
  total_questions_answered :: int
  correct_responses :: int
  detailed_responses :: int
  session_count :: int
  total_study_time :: real
  strength_areas :: "string list"
  improvement_areas :: "string list"
  learning_velocity :: real
  engagement_score :: real

definition new_StudentProfile ::
  "string \<Rightarrow> string \<Rightarrow> string \<Rightarrow> string list \<Rightarrow> string \<Rightarrow> string \<Rightarrow> StudentProfile" where
  \<comment> \<open>the dataclass defaults together with \<^verbatim>\<open>__post_init__\<close>\<close>
  "new_StudentProfile nm sid created topics pdiff style =
     \<lparr> name = nm, student_id = sid, created_at = created,
       preferred_topics = topics, preferred_difficulty = pdiff, learning_style = style,
       overall_performance = 0.5,
       topic_performance =
         [(''mathematics'', 0.5), (''science'', 0.5), (''programming'', 0.5), (''language'', 0.5)],
       difficulty_performance = [(''easy'', 0.6), (''medium'', 0.5), (''hard'', 0.4)],
       total_questions_answered = 0, correct_responses = 0, detailed_responses = 0,
       session_count = 0, total_study_time = 0,
       strength_areas = [], improvement_areas = [],
       learning_velocity = 0, engagement_score = 0.5 \<rparr>"

section \<open>Student progress manager\<close>

definition mean_values :: "real dict \<Rightarrow> py_error + real" where
  \<comment> \<open>\<^verbatim>\<open>sum(d.values()) / len(d)\<close>; dividing by the length of an empty dict raises\<close>
  "mean_values d =
     (if length d = 0 then Inl ZeroDivisionError
      else Inr (sum_list (dict_values d) / real (length d)))"

definition update_learning_areas :: "StudentProfile \<Rightarrow> py_error + StudentProfile" where
  \<comment> \<open>\<^verbatim>\<open>StudentProgressManager._update_learning_areas\<close>\<close>
  "update_learning_areas profile =
     (let topic_scores = topic_performance profile in
      case mean_values topic_scores of
        Inl e \<Rightarrow> Inl e
      | Inr avg_performance \<Rightarrow>
          Inr (profile
            \<lparr> strength_areas :=
                map fst (filter (\<lambda>(topic, score). score > avg_performance + 0.1) topic_scores),
              improvement_areas :=
                map fst (filter (\<lambda>(topic, score). score < avg_performance - 0.1) topic_scores) \<rparr>))"

definition update_profile ::
  "StudentProfile \<Rightarrow> string \<Rightarrow> string \<Rightarrow> real \<Rightarrow> py_error + StudentProfile" where
  \<comment> \<open>the body of \<^verbatim>\<open>update_student_performance\<close> once the profile has been found\<close>
  "update_profile profile topic difficulty response_quality =
     (let p1 = profile
            \<lparr> overall_performance := overall_performance profile * 0.9 + response_quality * 0.1 \<rparr>;
          current_topic_perf = dict_get (topic_performance p1) topic 0.5;
          p2 = p1
            \<lparr> topic_performance :=
                dict_set (topic_performance p1) topic
                  (current_topic_perf * 0.8 + response_quality * 0.2) \<rparr>;
          current_diff_perf = dict_get (difficulty_performance p2) difficulty 0.5;
          p3 = p2
            \<lparr> difficulty_performance :=
                dict_set (difficulty_performance p2) difficulty
                  (current_diff_perf * 0.8 + response_quality * 0.2) \<rparr>;
          p4 = p3 \<lparr> total_questions_answered := total_questions_answered p3 + 1 \<rparr>;
          p5 = (if response_quality > 0.6
                then p4 \<lparr> correct_responses := correct_responses p4 + 1 \<rparr> else p4);
          p6 = (if response_quality > 0.8
                then p5 \<lparr> detailed_responses := detailed_responses p5 + 1 \<rparr> else p5);
          engagement_change = (response_quality - 0.5) * 0.1;
          p7 = p6
            \<lparr> engagement_score := max 0.1 (min 1.0 (engagement_score p6 + engagement_change)) \<rparr>
      in
        if total_questions_answered p7 > 5 then
          (case mean_values (topic_performance p7) of
             Inl e \<Rightarrow> Inl e
           | Inr recent_performance \<Rightarrow>
               update_learning_areas (p7 \<lparr> learning_velocity := (recent_performance - 0.5) * 2 \<rparr>))
        else update_learning_areas p7)"

record StudentProgressManager =
  students :: "string \<rightharpoonup> StudentProfile"

definition update_student_performance ::
  "StudentProgressManager \<Rightarrow> string \<Rightarrow> string \<Rightarrow> string \<Rightarrow> real \<Rightarrow> real
     \<Rightarrow> py_error + StudentProgressManager" where
  \<comment> \<open>\<^verbatim>\<open>session_reward\<close> is accepted and never read, as in the source\<close>
  "update_student_performance mgr sid topic difficulty response_quality session_reward =
     (case students mgr sid of
        None \<Rightarrow> Inr mgr
      | Some profile \<Rightarrow>
          (case update_profile profile topic difficulty response_quality of
             Inl e \<Rightarrow> Inl e
           | Inr profile' \<Rightarrow> Inr (mgr \<lparr> students := (students mgr)(sid \<mapsto> profile') \<rparr>)))"

section \<open>The standard library's random source\<close>

text \<open>
  The generator itself is not part of the repository.  A random source is the stream of
  its raw draws, threaded through every call: \<^verbatim>\<open>random()\<close> returns a 53-bit fraction
  in \<open>[0, 1)\<close>, and \<^verbatim>\<open>_randbelow(n)\<close> a number below \<open>n\<close> (one draw reduced
  into range; the library's rejection sampling is not modelled).
\<close>

type_synonym rng = "nat stream"

definition random_float :: "rng \<Rightarrow> real \<times> rng" where
  "random_float r = (real (shd r mod 9007199254740992) / 9007199254740992, stl r)"

definition randbelow :: "nat \<Rightarrow> rng \<Rightarrow> nat \<times> rng" where
  "randbelow n r = (shd r mod n, stl r)"

definition random_choice :: "'a list \<Rightarrow> rng \<Rightarrow> py_error + ('a \<times> rng)" where
  \<comment> \<open>\<^verbatim>\<open>random.choice(seq)\<close>; an empty sequence raises \<^verbatim>\<open>IndexError\<close>\<close>
  "random_choice seq r =
     (if length seq = 0 then Inl IndexError
      else (let (i, r') = randbelow (length seq) r in Inr (seq ! i, r')))"

fun accumulate_from :: "real \<Rightarrow> real list \<Rightarrow> real list" where
  "accumulate_from acc [] = []"
| "accumulate_from acc (w # ws) = (acc + w) # accumulate_from (acc + w) ws"

definition accumulate :: "real list \<Rightarrow> real list" where
  \<comment> \<open>\<^verbatim>\<open>list(itertools.accumulate(weights))\<close>: the running sums\<close>
  "accumulate ws = accumulate_from 0 ws"

function bisect :: "real list \<Rightarrow> real \<Rightarrow> nat \<Rightarrow> nat \<Rightarrow> nat" where
  \<comment> \<open>\<^verbatim>\<open>bisect.bisect_right(a, x, lo, hi)\<close>, the binary search as written\<close>
  "bisect a x lo hi =
     (if lo < hi then
        (if x < a ! ((lo + hi) div 2) then bisect a x lo ((lo + hi) div 2)
         else bisect a x ((lo + hi) div 2 + 1) hi)
      else lo)"
  by pat_completeness auto
termination
  by (relation "measure (\<lambda>(a, x, lo, hi). hi - lo)") auto

declare bisect.simps [simp del]

definition random_choices :: "'a list \<Rightarrow> real list \<Rightarrow> rng \<Rightarrow> py_error + ('a \<times> rng)" where
  \<comment> \<open>\<^verbatim>\<open>random.choices(population, weights=weights)[0]\<close>\<close>
  "random_choices population weights r =
     (let n = length population;
          cum_weights = accumulate weights
      in
        if length cum_weights \<noteq> n then Inl ValueError
        else if cum_weights = [] then Inl IndexError
        else
          (let total = last cum_weights in
           if total \<le> 0 then Inl ValueError
           else
             (let (u, r') = random_float r;
                  hi = n - 1
              in Inr (population ! bisect cum_weights (u * total) 0 hi, r'))))"

section \<open>The two agents\<close>

text \<open>
  The DQN agent keys its table by the f-string \<^verbatim>\<open>interaction_<count>\<close>, which is
  injective in the count: the key is modelled as the count.  The formatted update
  strings are modelled by the values they print.
\<close>

datatype update_message =
    EmptyMessage
  | DQNUpdateMessage int int nat real real
  | PPOUpdateMessage int real real

record EnhancedDQNAgent =
  dqn_name :: string
  q_values :: "int \<rightharpoonup> real list"
  learning_rate :: real
  updates :: int
  dqn_performance :: real
  student_adaptation_factor :: real

definition new_EnhancedDQNAgent :: EnhancedDQNAgent where
  "new_EnhancedDQNAgent =
     \<lparr> dqn_name = ''DQN'', q_values = Map.empty, learning_rate = 0.1, updates = 0,
       dqn_performance = 0.5, student_adaptation_factor = 0.05 \<rparr>"

definition dqn_update ::
  "EnhancedDQNAgent \<Rightarrow> int \<Rightarrow> nat \<Rightarrow> real \<Rightarrow> StudentProfile
     \<Rightarrow> py_error + (update_message \<times> EnhancedDQNAgent)" where
  \<comment> \<open>\<^verbatim>\<open>EnhancedDQNAgent.update\<close>; \<^verbatim>\<open>next_state\<close> is never read\<close>
  "dqn_update agent state action reward student_profile =
     (let a1 = agent \<lparr> updates := updates agent + 1 \<rparr>;
          adapted_lr =
            learning_rate a1 * (1 + learning_velocity student_profile * student_adaptation_factor a1);
          row = (case q_values a1 state of None \<Rightarrow> replicate 4 0 | Some qs \<Rightarrow> qs)
      in
        if action \<ge> length row then Inl IndexError
        else
          (let old_value = row ! action;
               new_value = old_value + adapted_lr * (reward - old_value);
               a2 = a1 \<lparr> q_values := (q_values a1)(state \<mapsto> row[action := new_value]) \<rparr>;
               a3 = a2
                 \<lparr> dqn_performance :=
                     min 0.95 (dqn_performance a2 + 0.05 * (if reward > 0 then 1 else -1)) \<rparr>
           in Inr (DQNUpdateMessage (updates a3) state action new_value adapted_lr, a3)))"

definition select_difficulty :: "StudentProfile \<Rightarrow> rng \<Rightarrow> py_error + (Difficulty \<times> rng)" where
  \<comment> \<open>\<^verbatim>\<open>EnhancedDQNAgent.select_difficulty\<close>; the agent's own fields are not read\<close>
  "select_difficulty student_profile r =
     (let perf = overall_performance student_profile in
      if perf < 0.4 then Inr (EASY, r)
      else if perf > 0.7 then random_choices [MEDIUM, HARD] [0.6, 0.4] r
      else random_choices [EASY, MEDIUM] [0.3, 0.7] r)"

record EnhancedPPOAgent =
  ppo_name :: string
  policy_updates :: int
  ppo_performance :: real
  student_preferences_weight :: real

definition new_EnhancedPPOAgent :: EnhancedPPOAgent where
  "new_EnhancedPPOAgent =
     \<lparr> ppo_name = ''PPO'', policy_updates = 0, ppo_performance = 0.5,
       student_preferences_weight = 0.3 \<rparr>"

definition ppo_update ::
  "EnhancedPPOAgent \<Rightarrow> real \<Rightarrow> StudentProfile \<Rightarrow> update_message \<times> EnhancedPPOAgent" where
  \<comment> \<open>\<^verbatim>\<open>EnhancedPPOAgent.update\<close>; state, action and next_state are never read\<close>
  "ppo_update agent reward student_profile =
     (let a1 = agent \<lparr> policy_updates := policy_updates agent + 1 \<rparr>;
          engagement_factor = engagement_score student_profile;
          adapted_reward = reward * (1 + engagement_factor * 0.2);
          a2 = a1
            \<lparr> ppo_performance :=
                min 0.95 (ppo_performance a1 + 0.03 * (if adapted_reward > 0 then 1 else -1)) \<rparr>
      in (PPOUpdateMessage (policy_updates a2) (ppo_performance a2) engagement_factor, a2))"

definition topics :: "string list" where
  "topics = [''mathematics'', ''science'', ''programming'', ''language'']"

definition topic_weight :: "EnhancedPPOAgent \<Rightarrow> StudentProfile \<Rightarrow> string \<Rightarrow> real" where
  \<comment> \<open>one pass of the loop body of \<^verbatim>\<open>select_topic\<close>\<close>
  "topic_weight agent student_profile topic =
     (let w0 = 1.0;
          w1 = (if topic \<in> set (preferred_topics student_profile)
                then w0 + student_preferences_weight agent else w0);
          w2 = (if topic \<in> set (improvement_areas student_profile) then w1 + 0.4 else w1);
          topic_perf = dict_get (topic_performance student_profile) topic 0.5
      in w2 + (1.0 - topic_perf) * 0.3)"

definition select_topic ::
  "EnhancedPPOAgent \<Rightarrow> StudentProfile \<Rightarrow> rng \<Rightarrow> py_error + (string \<times> rng)" where
  "select_topic agent student_profile r =
     random_choices topics (map (topic_weight agent student_profile) topics) r"

section \<open>The orchestrator\<close>

text \<open>
  The question bank and the session start time play no part in coordination or
  evaluation and are left out of the record.  \<^verbatim>\<open>self.student_profile\<close> and the
  progress manager's entry for the student's id are one object in the source; the
  model writes the updated profile to both places.
\<close>

record CompleteTutorialOrchestrator =
  mode :: CoordinationMode
  student_profile :: StudentProfile
  dqn_agent :: EnhancedDQNAgent
  ppo_agent :: EnhancedPPOAgent
  progress_manager :: StudentProgressManager
  interaction_count :: int
  total_reward :: real

definition new_CompleteTutorialOrchestrator ::
  "CoordinationMode \<Rightarrow> StudentProfile \<Rightarrow> CompleteTutorialOrchestrator" where
  "new_CompleteTutorialOrchestrator m profile =
     \<lparr> mode = m, student_profile = profile,
       dqn_agent = new_EnhancedDQNAgent, ppo_agent = new_EnhancedPPOAgent,
       progress_manager = \<lparr> students = Map.empty \<rparr>,
       interaction_count = 0, total_reward = 0 \<rparr>"

text \<open>The descriptive f-string, by the values it prints.\<close>

datatype coordination_info =
    Hierarchical_info string Difficulty
  | Collaborative_info string Difficulty
  | Competitive_DQN_leads real
  | Competitive_PPO_leads real

definition coordinate_agents ::
  "CompleteTutorialOrchestrator \<Rightarrow> rng
     \<Rightarrow> py_error + ((coordination_info \<times> string \<times> Difficulty) \<times> rng)" where
  "coordinate_agents self r =
     (case mode self of
        HIERARCHICAL \<Rightarrow>
          (case select_topic (ppo_agent self) (student_profile self) r of
             Inl e \<Rightarrow> Inl e
           | Inr (topic, r1) \<Rightarrow>
               (case select_difficulty (student_profile self) r1 of
                  Inl e \<Rightarrow> Inl e
                | Inr (difficulty, r2) \<Rightarrow>
                    Inr ((Hierarchical_info topic difficulty, topic, difficulty), r2)))
      | COLLABORATIVE \<Rightarrow>
          (case select_topic (ppo_agent self) (student_profile self) r of
             Inl e \<Rightarrow> Inl e
           | Inr (topic, r1) \<Rightarrow>
               (case select_difficulty (student_profile self) r1 of
                  Inl e \<Rightarrow> Inl e
                | Inr (difficulty, r2) \<Rightarrow>
                    Inr ((Collaborative_info topic difficulty, topic, difficulty), r2)))
      | COMPETITIVE \<Rightarrow>
          (if dqn_performance (dqn_agent self) > ppo_performance (ppo_agent self) then
             (case random_choice [''mathematics'', ''science'', ''programming'', ''language''] r of
                Inl e \<Rightarrow> Inl e
              | Inr (topic, r1) \<Rightarrow>
                  (case select_difficulty (student_profile self) r1 of
                     Inl e \<Rightarrow> Inl e
                   | Inr (difficulty, r2) \<Rightarrow>
                       Inr ((Competitive_DQN_leads (dqn_performance (dqn_agent self)),
                             topic, difficulty), r2)))
           else
             (case select_topic (ppo_agent self) (student_profile self) r of
                Inl e \<Rightarrow> Inl e
              | Inr (topic, r1) \<Rightarrow>
                  (case random_choice [EASY, MEDIUM, HARD] r1 of
                     Inl e \<Rightarrow> Inl e
                   | Inr (difficulty, r2) \<Rightarrow>
                       Inr ((Competitive_PPO_leads (ppo_performance (ppo_agent self)),
                             topic, difficulty), r2)))))"

subsection \<open>Text helpers\<close>

definition is_space :: "char \<Rightarrow> bool" where
  \<comment> \<open>the ASCII characters for which \<^verbatim>\<open>str.isspace\<close> holds\<close>
  "is_space c \<longleftrightarrow>
     c \<in> set [CHR 0x09, CHR 0x0A, CHR 0x0B, CHR 0x0C, CHR 0x0D,
              CHR 0x1C, CHR 0x1D, CHR 0x1E, CHR 0x1F, CHR 0x20]"

definition strip :: "string \<Rightarrow> string" where
  "strip s = rev (dropWhile is_space (rev (dropWhile is_space s)))"

definition lower_char :: "char \<Rightarrow> char" where
  "lower_char c =
     (case map_of (zip ''ABCDEFGHIJKLMNOPQRSTUVWXYZ'' ''abcdefghijklmnopqrstuvwxyz'') c of
        None \<Rightarrow> c
      | Some l \<Rightarrow> l)"

definition lower :: "string \<Rightarrow> string" where
  "lower s = map lower_char s"

definition difficulty_name_lower :: "Difficulty \<Rightarrow> string" where
  \<comment> \<open>\<^verbatim>\<open>difficulty.name.lower()\<close>\<close>
  "difficulty_name_lower d = (case d of EASY \<Rightarrow> ''easy'' | MEDIUM \<Rightarrow> ''medium'' | HARD \<Rightarrow> ''hard'')"

subsection \<open>Response evaluation\<close>

definition difficulty_multiplier :: "Difficulty \<Rightarrow> real" where
  "difficulty_multiplier d = (case d of EASY \<Rightarrow> 1.0 | MEDIUM \<Rightarrow> 1.1 | HARD \<Rightarrow> 1.2)"

definition feedback_options :: "((real \<times> real) \<times> string) list" where
  "feedback_options =
     [((0.0, 0.3), ''Brief response - try to elaborate more with examples''),
      ((0.3, 0.6), ''Good effort - consider adding more detail and explanation''),
      ((0.6, 0.8), ''Well-developed response - good understanding shown''),
      ((0.8, 1.0), ''Excellent detailed response - demonstrates deep understanding''),
      ((1.0, 2.0), ''Outstanding response with exceptional insight and detail'')]"

definition feedback_for :: "real \<Rightarrow> py_error + string" where
  \<comment> \<open>\<^verbatim>\<open>next(msg for (low, high), msg in ... if low <= reward < high)\<close>\<close>
  "feedback_for reward =
     (case filter (\<lambda>((low, high), msg). low \<le> reward \<and> reward < high) feedback_options of
        [] \<Rightarrow> Inl StopIteration
      | (_, msg) # _ \<Rightarrow> Inr msg)"

definition base_reward :: "int \<Rightarrow> real" where
  \<comment> \<open>the three successive \<^verbatim>\<open>if\<close> statements on the stripped length\<close>
  "base_reward response_length =
     (let b0 = 0.1;
          b1 = (if response_length \<ge> 20 then 0.4 else b0);
          b2 = (if response_length \<ge> 60 then 0.7 else b1);
          b3 = (if response_length \<ge> 120 then 1.0 else b2)
      in b3)"

definition response_reward :: "StudentProfile \<Rightarrow> string \<Rightarrow> string \<Rightarrow> Difficulty \<Rightarrow> real" where
  \<comment> \<open>the reward of a response that is not a sentinel\<close>
  "response_reward profile user_response topic difficulty =
     (let response_length = int (length (strip user_response));
          b = base_reward response_length;
          b' = (if topic \<in> set (improvement_areas profile) then b * 1.2 else b)
      in b' * difficulty_multiplier difficulty)"

definition is_sentinel :: "string \<Rightarrow> bool" where
  \<comment> \<open>\<^verbatim>\<open>not user_response or user_response.strip().lower() in ['q', 'quit', 'exit']\<close>\<close>
  "is_sentinel user_response \<longleftrightarrow>
     user_response = [] \<or> lower (strip user_response) \<in> set [''q'', ''quit'', ''exit'']"

definition evaluate_response ::
  "CompleteTutorialOrchestrator \<Rightarrow> string \<Rightarrow> string \<Rightarrow> string \<Rightarrow> Difficulty
     \<Rightarrow> py_error + ((real \<times> string \<times> update_message \<times> update_message)
                       \<times> CompleteTutorialOrchestrator)" where
  "evaluate_response self user_response sample_answer topic difficulty =
     (let s1 = self \<lparr> interaction_count := interaction_count self + 1 \<rparr> in
      if is_sentinel user_response
      then Inr ((0.0, ''No response provided'', EmptyMessage, EmptyMessage), s1)
      else
        (let response_length = int (length (strip user_response));
             reward = response_reward (student_profile s1) user_response topic difficulty;
             s2 = s1 \<lparr> total_reward := total_reward s1 + reward \<rparr>
         in
           case feedback_for reward of
             Inl e \<Rightarrow> Inl e
           | Inr feedback \<Rightarrow>
               (let state = interaction_count s2;
                    action = min 3 (nat (response_length div 30))
                in
                  case dqn_update (dqn_agent s2) state action reward (student_profile s2) of
                    Inl e \<Rightarrow> Inl e
                  | Inr (dqn_msg, dqn') \<Rightarrow>
                      (let (ppo_msg, ppo') =
                             ppo_update (ppo_agent s2) reward (student_profile s2);
                           sid = student_id (student_profile s2);
                           mgr1 = (progress_manager s2)
                             \<lparr> students :=
                                 (students (progress_manager s2))(sid \<mapsto> student_profile s2) \<rparr>
                       in
                         case update_student_performance mgr1 sid topic
                                (difficulty_name_lower difficulty) reward (total_reward s2) of
                           Inl e \<Rightarrow> Inl e
                         | Inr mgr2 \<Rightarrow>
                             Inr ((reward, feedback, dqn_msg, ppo_msg),
                                  s2 \<lparr> dqn_agent := dqn', ppo_agent := ppo',
                                       progress_manager := mgr2,
                                       student_profile :=
                                         (case students mgr2 sid of
                                            None \<Rightarrow> student_profile s2
                                          | Some p \<Rightarrow> p) \<rparr>)))))"

section \<open>The web service's evaluator (\<^verbatim>\<open>professional_fastapi_app.py\<close>)\<close>

definition submit_response_evaluate :: "string \<Rightarrow> real \<times> string" where
  \<comment> \<open>the reward and feedback computed by \<^verbatim>\<open>submit_response\<close> from the raw text\<close>
  "submit_response_evaluate response =
     (let response_length = length response in
      if response_length < 10
      then (0.1, ''Brief response - try to elaborate more with examples'')
      else if response_length < 50
      then (0.3, ''Good start - consider adding more detail and examples'')
      else if response_length < 100
      then (0.6, ''Well-developed response with good explanation'')
      else (0.8, ''Excellent detailed response showing thorough understanding''))"

section \<open>Auxiliary notions for the statements\<close>

definition updated_topic_performance :: "StudentProfile \<Rightarrow> string \<Rightarrow> real \<Rightarrow> real dict" where
  \<comment> \<open>the topic table after the assignment in \<^verbatim>\<open>update_student_performance\<close>\<close>
  "updated_topic_performance p t q =
     dict_set (topic_performance p) t (dict_get (topic_performance p) t 0.5 * 0.8 + q * 0.2)"

definition chosen_pair ::
  "(coordination_info \<times> string \<times> Difficulty) \<times> rng \<Rightarrow> (string \<times> Difficulty) \<times> rng" where
  \<comment> \<open>what a coordination round selects, without the descriptive text\<close>
  "chosen_pair x = (snd (fst x), snd x)"

definition scenario_profile :: StudentProfile where
  \<comment> \<open>a student with one topic, half marks everywhere and six answers so far\<close>
  "scenario_profile =
     (new_StudentProfile ''Ada'' ''S1'' ''2025-01-01'' [''math''] ''medium'' ''reading'')
       \<lparr> topic_performance := [(''math'', 0.5)], total_questions_answered := 6 \<rparr>"

definition mixed_profile :: StudentProfile where
  \<comment> \<open>uneven topic scores, with stale entries in both area lists\<close>
  "mixed_profile =
     (new_StudentProfile ''Bo'' ''S2'' ''2025-01-02'' [''science''] ''easy'' ''visual'')
       \<lparr> topic_performance := [(''mathematics'', 0.9), (''science'', 0.2), (''programming'', 0.5)],
         strength_areas := [''science''], improvement_areas := [''mathematics''] \<rparr>"

definition demo_profile :: StudentProfile where
  \<comment> \<open>the demo profile of \<^verbatim>\<open>setup_student\<close>\<close>
  "demo_profile =
     new_StudentProfile ''Demo Student'' ''DEMO001'' ''2025-01-01T00:00:00''
       [''programming'', ''mathematics''] ''medium'' ''reading''"

definition wf_q_values :: "EnhancedDQNAgent \<Rightarrow> bool" where
  \<comment> \<open>every row the agent has stored is one it created: four entries\<close>
  "wf_q_values agent \<longleftrightarrow> (\<forall>state qs. q_values agent state = Some qs \<longrightarrow> length qs = 4)"


definition dqn_ahead :: CompleteTutorialOrchestrator where
  \<comment> \<open>a competitive session in which the DQN agent's performance is ahead\<close>
  "dqn_ahead =
     (new_CompleteTutorialOrchestrator COMPETITIVE demo_profile)
       \<lparr> dqn_agent := new_EnhancedDQNAgent \<lparr> dqn_performance := 0.55 \<rparr> \<rparr>"


section \<open>Facts about dicts\<close>

lemma dict_set_not_Nil: "dict_set d k v \<noteq> []"
  by (cases d) (auto split: if_splits)

lemma dict_lookup_set:
  "dict_lookup (dict_set d k v) k' = (if k' = k then Some v else dict_lookup d k')"
  by (induction d) auto

lemma dict_keys_set:
  "dict_keys (dict_set d k v) = (if k \<in> set (dict_keys d) then dict_keys d else dict_keys d @ [k])"
  by (induction d) (auto simp: dict_keys_def split: if_splits)

lemma wf_dict_set: "wf_dict d \<Longrightarrow> wf_dict (dict_set d k v)"
  by (simp add: wf_dict_def dict_keys_set)

lemma set_dict_set: "set (dict_set d k v) \<subseteq> insert (k, v) (set d)"
  by (induction d) (auto split: if_splits)

lemma wf_dict_lookup_iff: "wf_dict d \<Longrightarrow> (k, v) \<in> set d \<longleftrightarrow> dict_lookup d k = Some v"
  by (induction d) (auto simp: wf_dict_def dict_keys_def rev_image_eqI split: if_splits)

lemma mean_values_set:
  "mean_values (dict_set d k v) =
     Inr (sum_list (dict_values (dict_set d k v)) / real (length (dict_set d k v)))"
  by (simp add: mean_values_def dict_set_not_Nil)

section \<open>The update always succeeds, and what it writes\<close>

lemma update_profile_Inr:
  "\<exists>p'. update_profile p t d q = Inr p'
     \<and> overall_performance p' = overall_performance p * 0.9 + q * 0.1
     \<and> topic_performance p' = updated_topic_performance p t q
     \<and> difficulty_performance p' =
         dict_set (difficulty_performance p) d
           (dict_get (difficulty_performance p) d 0.5 * 0.8 + q * 0.2)
     \<and> total_questions_answered p' = total_questions_answered p + 1
     \<and> correct_responses p' = (if q > 0.6 then correct_responses p + 1 else correct_responses p)
     \<and> detailed_responses p' = (if q > 0.8 then detailed_responses p + 1 else detailed_responses p)
     \<and> engagement_score p' = max 0.1 (min 1.0 (engagement_score p + (q - 0.5) * 0.1))
     \<and> learning_velocity p' =
         (if total_questions_answered p + 1 > 5
          then (sum_list (dict_values (updated_topic_performance p t q))
                 / real (length (updated_topic_performance p t q)) - 0.5) * 2
          else learning_velocity p)
     \<and> strength_areas p' =
         map fst (filter (\<lambda>(topic, score). score >
            sum_list (dict_values (updated_topic_performance p t q))
              / real (length (updated_topic_performance p t q)) + 0.1)
            (updated_topic_performance p t q))
     \<and> improvement_areas p' =
         map fst (filter (\<lambda>(topic, score). score <
            sum_list (dict_values (updated_topic_performance p t q))
              / real (length (updated_topic_performance p t q)) - 0.1)
            (updated_topic_performance p t q))"
  unfolding update_profile_def update_learning_areas_def Let_def updated_topic_performance_def
  by (simp add: mean_values_set)

lemma update_student_performance_found:
  assumes "students mgr sid = Some p" and "update_profile p t d q = Inr p'"
  shows "update_student_performance mgr sid t d q sr
           = Inr (mgr \<lparr> students := (students mgr)(sid \<mapsto> p') \<rparr>)"
  using assms by (simp add: update_student_performance_def)

section \<open>Claims about the state tracker\<close>

text \<open>
  C1.  A registered profile with overall performance 0.5, a \<open>math\<close> entry of 0.5 and six
  answered questions, updated for topic \<open>math\<close>, difficulty \<open>medium\<close> and quality 0.9:
  the update succeeds, the \<open>math\<close> entry becomes 0.58, the overall performance 0.54, the
  count 7, and the learning velocity is recomputed as twice the distance of the mean of
  the topic table from 0.5.
\<close>

theorem C1_update_scenario:
  assumes reg: "students mgr sid = Some p"
    and ov: "overall_performance p = 0.5"
    and tp: "dict_lookup (topic_performance p) ''math'' = Some 0.5"
    and cnt: "total_questions_answered p = 6"
  shows "\<exists>mgr' p'. update_student_performance mgr sid ''math'' ''medium'' 0.9 sr = Inr mgr'
           \<and> students mgr' sid = Some p'
           \<and> dict_lookup (topic_performance p') ''math'' = Some 0.58
           \<and> overall_performance p' = 0.54
           \<and> total_questions_answered p' = 7
           \<and> mean_values (topic_performance p')
                = Inr (sum_list (dict_values (topic_performance p')) / real (length (topic_performance p')))
           \<and> learning_velocity p'
                = (sum_list (dict_values (topic_performance p')) / real (length (topic_performance p')) - 0.5) * 2"
proof -
  obtain p' where up: "update_profile p ''math'' ''medium'' 0.9 = Inr p'"
    and o': "overall_performance p' = overall_performance p * 0.9 + 0.9 * 0.1"
    and t': "topic_performance p' = updated_topic_performance p ''math'' 0.9"
    and c': "total_questions_answered p' = total_questions_answered p + 1"
    and v': "learning_velocity p' =
         (if total_questions_answered p + 1 > 5
          then (sum_list (dict_values (updated_topic_performance p ''math'' 0.9))
                 / real (length (updated_topic_performance p ''math'' 0.9)) - 0.5) * 2
          else learning_velocity p)"
    using update_profile_Inr [of p "''math''" "''medium''" "0.9"] by blast
  have m: "update_student_performance mgr sid ''math'' ''medium'' 0.9 sr
             = Inr (mgr \<lparr> students := (students mgr)(sid \<mapsto> p') \<rparr>)"
    by (rule update_student_performance_found [OF reg up])
  have l: "dict_lookup (topic_performance p') ''math'' = Some 0.58"
    using tp by (simp add: t' updated_topic_performance_def dict_lookup_set dict_get_def)
  have o: "overall_performance p' = 0.54"
    using ov o' by simp
  have c: "total_questions_answered p' = 7"
    using cnt c' by simp
  have mv: "mean_values (topic_performance p')
                = Inr (sum_list (dict_values (topic_performance p')) / real (length (topic_performance p')))"
    by (simp add: t' updated_topic_performance_def mean_values_set)
  have v: "learning_velocity p'
             = (sum_list (dict_values (topic_performance p')) / real (length (topic_performance p')) - 0.5) * 2"
    using cnt v' by (simp add: t')
  show ?thesis
    using m l o c mv v by simp
qed

theorem C1_update_scenario_witness:
  "\<exists>mgr' p'. update_student_performance \<lparr> students = [''S1'' \<mapsto> scenario_profile] \<rparr>
                 ''S1'' ''math'' ''medium'' 0.9 0 = Inr mgr'
           \<and> students mgr' ''S1'' = Some p'
           \<and> dict_lookup (topic_performance p') ''math'' = Some 0.58
           \<and> overall_performance p' = 0.54
           \<and> total_questions_answered p' = 7
           \<and> mean_values (topic_performance p')
                = Inr (sum_list (dict_values (topic_performance p')) / real (length (topic_performance p')))
           \<and> learning_velocity p'
                = (sum_list (dict_values (topic_performance p')) / real (length (topic_performance p')) - 0.5) * 2"
  using C1_update_scenario [of "\<lparr> students = [''S1'' \<mapsto> scenario_profile] \<rparr>" "''S1''" scenario_profile 0]
  by (simp add: scenario_profile_def new_StudentProfile_def)

lemma dict_lookup_in_set: "dict_lookup d k = Some v \<Longrightarrow> (k, v) \<in> set d"
  by (induction d) (auto split: if_splits)

lemma dict_get_range:
  assumes "\<forall>v\<in>set (dict_values d). lo \<le> v \<and> v \<le> hi" and "lo \<le> dflt" and "dflt \<le> hi"
  shows "lo \<le> dict_get d k dflt \<and> dict_get d k dflt \<le> (hi::real)"
proof (cases "dict_lookup d k")
  case None
  then show ?thesis using assms by (simp add: dict_get_def)
next
  case (Some v)
  then have "v \<in> set (dict_values d)"
    by (force simp: dict_values_def dest: dict_lookup_in_set)
  then show ?thesis using assms Some by (simp add: dict_get_def)
qed

lemma dict_set_range:
  assumes "\<forall>v\<in>set (dict_values d). lo \<le> v \<and> v \<le> hi" and "lo \<le> x" and "x \<le> hi"
  shows "\<forall>v\<in>set (dict_values (dict_set d k x)). lo \<le> v \<and> v \<le> (hi::real)"
proof
  fix v assume "v \<in> set (dict_values (dict_set d k x))"
  then obtain k' where "(k', v) \<in> set (dict_set d k x)"
    by (auto simp: dict_values_def)
  then have "(k', v) = (k, x) \<or> (k', v) \<in> set d"
    using set_dict_set [of d k x] by blast
  then show "lo \<le> v \<and> v \<le> hi"
    using assms by (force simp: dict_values_def)
qed

lemma ema_range:
  fixes c q :: real
  assumes "0 \<le> c" "c \<le> 1" "0 \<le> q" "q \<le> 1"
  shows "0 \<le> c * 0.8 + q * 0.2 \<and> c * 0.8 + q * 0.2 \<le> 1"
    and "0 \<le> c * 0.9 + q * 0.1 \<and> c * 0.9 + q * 0.1 \<le> 1"
  using assms by auto

text \<open>
  C2.  For a registered profile whose overall performance and whose topic and difficulty
  entries all lie in \<open>[0, 1]\<close>, and a response quality in \<open>[0, 1]\<close>, the update
  succeeds and leaves the overall performance and every topic and difficulty entry in
  \<open>[0, 1]\<close>; the engagement score ends in \<open>[0.1, 1.0]\<close> (whatever it was before).
\<close>

theorem C2_update_keeps_ranges:
  assumes reg: "students mgr sid = Some p"
    and ov: "0 \<le> overall_performance p \<and> overall_performance p \<le> 1"
    and tp: "\<forall>v\<in>set (dict_values (topic_performance p)). 0 \<le> v \<and> v \<le> 1"
    and dp: "\<forall>v\<in>set (dict_values (difficulty_performance p)). 0 \<le> v \<and> v \<le> 1"
    and q: "0 \<le> q \<and> q \<le> 1"
  shows "\<exists>mgr' p'. update_student_performance mgr sid t d q sr = Inr mgr'
           \<and> students mgr' sid = Some p'
           \<and> 0 \<le> overall_performance p' \<and> overall_performance p' \<le> 1
           \<and> (\<forall>v\<in>set (dict_values (topic_performance p')). 0 \<le> v \<and> v \<le> 1)
           \<and> (\<forall>v\<in>set (dict_values (difficulty_performance p')). 0 \<le> v \<and> v \<le> 1)
           \<and> 0.1 \<le> engagement_score p' \<and> engagement_score p' \<le> 1.0"
proof -
  obtain p' where up: "update_profile p t d q = Inr p'"
    and o': "overall_performance p' = overall_performance p * 0.9 + q * 0.1"
    and t': "topic_performance p' = updated_topic_performance p t q"
    and d': "difficulty_performance p' =
         dict_set (difficulty_performance p) d
           (dict_get (difficulty_performance p) d 0.5 * 0.8 + q * 0.2)"
    and e': "engagement_score p' = max 0.1 (min 1.0 (engagement_score p + (q - 0.5) * 0.1))"
    using update_profile_Inr [of p t d q] by blast
  have m: "update_student_performance mgr sid t d q sr
             = Inr (mgr \<lparr> students := (students mgr)(sid \<mapsto> p') \<rparr>)"
    by (rule update_student_performance_found [OF reg up])
  have o: "0 \<le> overall_performance p' \<and> overall_performance p' \<le> 1"
    unfolding o' using ema_range(2) ov q by blast
  have ct: "0 \<le> dict_get (topic_performance p) t 0.5 \<and> dict_get (topic_performance p) t 0.5 \<le> 1"
    by (rule dict_get_range [OF tp]) simp_all
  have tr: "\<forall>v\<in>set (dict_values (topic_performance p')). 0 \<le> v \<and> v \<le> 1"
    unfolding t' updated_topic_performance_def
    using ema_range(1) ct q by (intro dict_set_range [OF tp]) blast+
  have cd: "0 \<le> dict_get (difficulty_performance p) d 0.5
              \<and> dict_get (difficulty_performance p) d 0.5 \<le> 1"
    by (rule dict_get_range [OF dp]) simp_all
  have dr: "\<forall>v\<in>set (dict_values (difficulty_performance p')). 0 \<le> v \<and> v \<le> 1"
    unfolding d'
    using ema_range(1) cd q by (intro dict_set_range [OF dp]) blast+
  have e: "0.1 \<le> engagement_score p' \<and> engagement_score p' \<le> 1.0"
    unfolding e' by simp
  show ?thesis
    using m o tr dr e by simp
qed

theorem C2_update_keeps_ranges_witness:
  "\<exists>mgr' p'. update_student_performance \<lparr> students = [''S1'' \<mapsto> scenario_profile] \<rparr>
                 ''S1'' ''science'' ''hard'' 1 0 = Inr mgr'
           \<and> students mgr' ''S1'' = Some p'
           \<and> 0 \<le> overall_performance p' \<and> overall_performance p' \<le> 1
           \<and> (\<forall>v\<in>set (dict_values (topic_performance p')). 0 \<le> v \<and> v \<le> 1)
           \<and> (\<forall>v\<in>set (dict_values (difficulty_performance p')). 0 \<le> v \<and> v \<le> 1)
           \<and> 0.1 \<le> engagement_score p' \<and> engagement_score p' \<le> 1.0"
  using C2_update_keeps_ranges
    [of "\<lparr> students = [''S1'' \<mapsto> scenario_profile] \<rparr>" "''S1''" scenario_profile 1
        "''science''" "''hard''" 0]
  by (simp add: scenario_profile_def new_StudentProfile_def dict_values_def)

lemma set_map_fst_filter:
  assumes "wf_dict d"
  shows "set (map fst (filter (\<lambda>(k, s). P s) d)) = {k. \<exists>s. dict_lookup d k = Some s \<and> P s}"
  using wf_dict_lookup_iff [OF assms] by force

text \<open>
  C8.  After an update of a registered profile (a dict holds each key once), the strength
  areas are exactly the topics whose entry exceeds the mean of the topic table by more
  than 0.1, the improvement areas exactly those below it by more than 0.1, and both are
  computed afresh: whatever the two lists held before, the update produces the same lists.
\<close>

theorem C8_learning_areas_recomputed:
  assumes reg: "students mgr sid = Some p"
    and wf: "wf_dict (topic_performance p)"
  shows "\<exists>mgr' p' avg. update_student_performance mgr sid t d q sr = Inr mgr'
           \<and> students mgr' sid = Some p'
           \<and> mean_values (topic_performance p') = Inr avg
           \<and> set (strength_areas p')
               = {k. \<exists>s. dict_lookup (topic_performance p') k = Some s \<and> s > avg + 0.1}
           \<and> set (improvement_areas p')
               = {k. \<exists>s. dict_lookup (topic_performance p') k = Some s \<and> s < avg - 0.1}
           \<and> (\<forall>xs ys. \<exists>mgr'' p''.
                 update_student_performance
                   (mgr \<lparr> students := (students mgr)
                            (sid \<mapsto> p \<lparr> strength_areas := xs, improvement_areas := ys \<rparr>) \<rparr>)
                   sid t d q sr = Inr mgr''
                 \<and> students mgr'' sid = Some p''
                 \<and> strength_areas p'' = strength_areas p'
                 \<and> improvement_areas p'' = improvement_areas p')"
proof -
  let ?tp = "updated_topic_performance p t q"
  let ?avg = "sum_list (dict_values ?tp) / real (length ?tp)"
  obtain p' where up: "update_profile p t d q = Inr p'"
    and t': "topic_performance p' = ?tp"
    and s': "strength_areas p' = map fst (filter (\<lambda>(topic, score). score > ?avg + 0.1) ?tp)"
    and i': "improvement_areas p' = map fst (filter (\<lambda>(topic, score). score < ?avg - 0.1) ?tp)"
    using update_profile_Inr [of p t d q] by blast
  have m: "update_student_performance mgr sid t d q sr
             = Inr (mgr \<lparr> students := (students mgr)(sid \<mapsto> p') \<rparr>)"
    by (rule update_student_performance_found [OF reg up])
  have wf': "wf_dict ?tp"
    unfolding updated_topic_performance_def by (rule wf_dict_set [OF wf])
  have mv: "mean_values (topic_performance p') = Inr ?avg"
    by (simp add: t' updated_topic_performance_def mean_values_set)
  have s: "set (strength_areas p')
             = {k. \<exists>s. dict_lookup (topic_performance p') k = Some s \<and> s > ?avg + 0.1}"
    unfolding s' t' by (rule set_map_fst_filter [OF wf'])
  have i: "set (improvement_areas p')
             = {k. \<exists>s. dict_lookup (topic_performance p') k = Some s \<and> s < ?avg - 0.1}"
    unfolding i' t' by (rule set_map_fst_filter [OF wf'])
  have fresh: "\<exists>mgr'' p''.
                 update_student_performance
                   (mgr \<lparr> students := (students mgr)
                            (sid \<mapsto> p \<lparr> strength_areas := xs, improvement_areas := ys \<rparr>) \<rparr>)
                   sid t d q sr = Inr mgr''
                 \<and> students mgr'' sid = Some p''
                 \<and> strength_areas p'' = strength_areas p'
                 \<and> improvement_areas p'' = improvement_areas p'" for xs ys
  proof -
    let ?p0 = "p \<lparr> strength_areas := xs, improvement_areas := ys \<rparr>"
    let ?m0 = "mgr \<lparr> students := (students mgr)(sid \<mapsto> ?p0) \<rparr>"
    have same: "updated_topic_performance ?p0 t q = ?tp"
      by (simp add: updated_topic_performance_def)
    obtain p'' where up0: "update_profile ?p0 t d q = Inr p''"
      and s0: "strength_areas p'' = map fst (filter (\<lambda>(topic, score). score > ?avg + 0.1) ?tp)"
      and i0: "improvement_areas p'' = map fst (filter (\<lambda>(topic, score). score < ?avg - 0.1) ?tp)"
      using update_profile_Inr [of ?p0 t d q] unfolding same by blast
    have reg0: "students ?m0 sid = Some ?p0" by simp
    have "update_student_performance ?m0 sid t d q sr
             = Inr (?m0 \<lparr> students := (students ?m0)(sid \<mapsto> p'') \<rparr>)"
      by (rule update_student_performance_found [OF reg0 up0])
    then show ?thesis
      using s0 i0 s' i' by simp
  qed
  show ?thesis
    using m mv s i fresh by simp
qed

theorem C8_learning_areas_recomputed_witness:
  "wf_dict (topic_performance mixed_profile) \<and>
   (\<exists>mgr' p' avg. update_student_performance \<lparr> students = [''S2'' \<mapsto> mixed_profile] \<rparr>
                 ''S2'' ''science'' ''easy'' 0.4 0 = Inr mgr'
           \<and> students mgr' ''S2'' = Some p'
           \<and> mean_values (topic_performance p') = Inr avg
           \<and> set (strength_areas p')
               = {k. \<exists>s. dict_lookup (topic_performance p') k = Some s \<and> s > avg + 0.1}
           \<and> set (improvement_areas p')
               = {k. \<exists>s. dict_lookup (topic_performance p') k = Some s \<and> s < avg - 0.1}
           \<and> (\<forall>xs ys. \<exists>mgr'' p''.
                 update_student_performance
                   (\<lparr> students = [''S2'' \<mapsto> mixed_profile] \<rparr>
                      \<lparr> students := (students \<lparr> students = [''S2'' \<mapsto> mixed_profile] \<rparr>)
                            (''S2'' \<mapsto> mixed_profile \<lparr> strength_areas := xs, improvement_areas := ys \<rparr>) \<rparr>)
                   ''S2'' ''science'' ''easy'' 0.4 0 = Inr mgr''
                 \<and> students mgr'' ''S2'' = Some p''
                 \<and> strength_areas p'' = strength_areas p'
                 \<and> improvement_areas p'' = improvement_areas p'))"
proof -
  have wf: "wf_dict (topic_performance mixed_profile)"
    by (simp add: mixed_profile_def new_StudentProfile_def wf_dict_def dict_keys_def)
  have reg: "students \<lparr> students = [''S2'' \<mapsto> mixed_profile] \<rparr> ''S2'' = Some mixed_profile"
    by simp
  show ?thesis
    using wf C8_learning_areas_recomputed [OF reg wf, of "''science''" "''easy''" "0.4" 0]
    by blast
qed

section \<open>Claims about response evaluation\<close>

lemma strip_example: "lower (strip ''  Quit '') = ''quit''"
  by (simp add: strip_def lower_def lower_char_def is_space_def)

text \<open>
  C3.  A sentinel response (empty, or one that strips and lowercases to \<open>q\<close>, \<open>quit\<close> or
  \<open>exit\<close>) is answered with reward 0, the label \<open>No response provided\<close> and two empty
  update messages; the student profile, the progress manager, both agents and the total
  reward are as before (only the orchestrator's interaction count has moved).
\<close>

theorem C3_sentinel_no_update:
  assumes "resp = [] \<or> lower (strip resp) \<in> {''q'', ''quit'', ''exit''}"
  shows "\<exists>s'. evaluate_response self resp sample topic difficulty
             = Inr ((0, ''No response provided'', EmptyMessage, EmptyMessage), s')
           \<and> student_profile s' = student_profile self
           \<and> progress_manager s' = progress_manager self
           \<and> dqn_agent s' = dqn_agent self
           \<and> ppo_agent s' = ppo_agent self
           \<and> total_reward s' = total_reward self"
  using assms by (auto simp: evaluate_response_def is_sentinel_def Let_def)

theorem C3_sentinel_no_update_witness:
  "lower (strip ''  Quit '') \<in> {''q'', ''quit'', ''exit''} \<and>
   (\<exists>s'. evaluate_response (new_CompleteTutorialOrchestrator COLLABORATIVE demo_profile)
             ''  Quit '' ''a sample answer'' ''science'' MEDIUM
             = Inr ((0, ''No response provided'', EmptyMessage, EmptyMessage), s')
           \<and> student_profile s' = demo_profile)"
proof -
  have h: "lower (strip ''  Quit '') \<in> {''q'', ''quit'', ''exit''}"
    by (simp add: strip_example)
  have s: "''  Quit '' = [] \<or> lower (strip ''  Quit '') \<in> {''q'', ''quit'', ''exit''}"
    using h by (rule disjI2)
  obtain s' where "evaluate_response (new_CompleteTutorialOrchestrator COLLABORATIVE demo_profile)
             ''  Quit '' ''a sample answer'' ''science'' MEDIUM
             = Inr ((0, ''No response provided'', EmptyMessage, EmptyMessage), s')"
    and "student_profile s'
           = student_profile (new_CompleteTutorialOrchestrator COLLABORATIVE demo_profile)"
    using C3_sentinel_no_update [OF s] by blast
  then show ?thesis
    using h by (auto simp: new_CompleteTutorialOrchestrator_def)
qed

subsection \<open>Evaluation never fails\<close>

lemma base_reward_bounds: "0.1 \<le> base_reward n \<and> base_reward n \<le> 1"
  by (simp add: base_reward_def Let_def)

lemma response_reward_eq:
  "response_reward p resp topic difficulty
     = base_reward (int (length (strip resp)))
         * (if topic \<in> set (improvement_areas p) then 1.2 else 1)
         * difficulty_multiplier difficulty"
  by (simp add: response_reward_def Let_def)

lemma response_reward_bounds:
  "0.1 \<le> response_reward p resp topic difficulty
     \<and> response_reward p resp topic difficulty \<le> 1.44"
  using base_reward_bounds [of "int (length (strip resp))"]
  by (cases difficulty) (auto simp: response_reward_eq difficulty_multiplier_def)

lemma response_reward_nonneg [simp]: "0 \<le> response_reward p resp topic difficulty"
  using response_reward_bounds [of p resp topic difficulty] by linarith

lemma response_reward_less_2 [simp]: "response_reward p resp topic difficulty < 2"
proof -
  have "response_reward p resp topic difficulty \<le> 1.44"
    using response_reward_bounds by blast
  also have "(1.44::real) < 2"
    by simp
  finally show ?thesis .
qed

lemma feedback_for_not_Inl: "0 \<le> r \<Longrightarrow> r < 2 \<Longrightarrow> feedback_for r \<noteq> Inl e"
  by (auto simp: feedback_for_def feedback_options_def)

lemma dqn_update_not_Inl:
  "wf_q_values agent \<Longrightarrow> action \<le> 3 \<Longrightarrow> dqn_update agent st action r p \<noteq> Inl e"
  by (auto simp: dqn_update_def wf_q_values_def Let_def split: option.splits)

lemma update_student_performance_not_Inl:
  "update_student_performance mgr sid t d q sr \<noteq> Inl e"
proof (cases "students mgr sid")
  case None
  then show ?thesis by (simp add: update_student_performance_def)
next
  case (Some p)
  obtain p' where "update_profile p t d q = Inr p'"
    using update_profile_Inr [of p t d q] by blast
  then show ?thesis
    using Some by (simp add: update_student_performance_def)
qed

lemma evaluate_response_total:
  assumes "wf_q_values (dqn_agent self)"
  shows "\<exists>res s'. evaluate_response self resp sample topic difficulty = Inr (res, s')
           \<and> fst res =
               (if is_sentinel resp then 0
                else response_reward (student_profile self) resp topic difficulty)"
  using assms
  by (auto simp: evaluate_response_def Let_def feedback_for_not_Inl dqn_update_not_Inl
        update_student_performance_not_Inl split: sum.splits prod.splits)


lemma strip_replicate: "\<not> is_space c \<Longrightarrow> strip (replicate n c) = replicate n c"
  by (induction n) (auto simp: strip_def dropWhile_append3 replicate_append_same [symmetric] simp del: replicate.simps)

lemma not_sentinel_long:
  assumes "length (strip resp) > 4" and "resp \<noteq> []"
  shows "\<not> is_sentinel resp"
proof -
  have "length (lower (strip resp)) > 4"
    using assms by (simp add: lower_def)
  then show ?thesis
    using assms by (auto simp: is_sentinel_def)
qed

lemma wf_q_values_new: "wf_q_values new_EnhancedDQNAgent"
  by (simp add: wf_q_values_def new_EnhancedDQNAgent_def)

text \<open>
  C4, as amended.  Whenever the agent's stored rows are well formed, evaluation succeeds,
  and the reward of a response that is not a sentinel is the base reward of its stripped
  length, times 1.2 if the topic is one of the student's improvement areas, times the
  difficulty multiplier (1.0, 1.1, 1.2).  Nothing clamps the product: it lies in
  \<open>[0, 1.44]\<close>, not in \<open>[0, 1]\<close>.
\<close>

theorem C4_reward_unclamped:
  assumes "wf_q_values (dqn_agent self)"
  shows "\<exists>res s'. evaluate_response self resp sample topic difficulty = Inr (res, s')
           \<and> 0 \<le> fst res \<and> fst res \<le> 1.44
           \<and> fst res =
               (if is_sentinel resp then 0
                else base_reward (int (length (strip resp)))
                       * (if topic \<in> set (improvement_areas (student_profile self)) then 1.2 else 1)
                       * difficulty_multiplier difficulty)"
proof -
  obtain res s' where e: "evaluate_response self resp sample topic difficulty = Inr (res, s')"
    and r: "fst res = (if is_sentinel resp then 0
                else response_reward (student_profile self) resp topic difficulty)"
    using evaluate_response_total [OF assms] by blast
  have b: "0 \<le> fst res \<and> fst res \<le> 1.44"
    using r response_reward_bounds [of "student_profile self" resp topic difficulty]
    by (cases "is_sentinel resp") auto
  show ?thesis
    using e r b by (simp add: response_reward_eq)
qed

theorem C4_reward_unclamped_witness:
  "wf_q_values (dqn_agent (new_CompleteTutorialOrchestrator COLLABORATIVE demo_profile)) \<and>
   (\<exists>res s'. evaluate_response (new_CompleteTutorialOrchestrator COLLABORATIVE demo_profile)
                (replicate 60 CHR ''a'') [] ''science'' MEDIUM = Inr (res, s')
           \<and> 0 \<le> fst res \<and> fst res \<le> 1.44 \<and> fst res = 0.77)"
proof -
  have wf: "wf_q_values (dqn_agent (new_CompleteTutorialOrchestrator COLLABORATIVE demo_profile))"
    by (simp add: new_CompleteTutorialOrchestrator_def wf_q_values_new)
  have ns: "\<not> is_sentinel (replicate 60 CHR ''a'')"
    by (rule not_sentinel_long) (simp_all add: strip_replicate is_space_def)
  show ?thesis
    using wf C4_reward_unclamped [OF wf, of "replicate 60 CHR ''a''" "[]" "''science''" MEDIUM]
    by (simp add: ns strip_replicate is_space_def base_reward_def difficulty_multiplier_def
         new_CompleteTutorialOrchestrator_def demo_profile_def new_StudentProfile_def)
qed

text \<open>
  The claim as stated, that the reward never exceeds 1, fails for the demo student: a
  response of 120 characters to a hard question earns 1.2.
\<close>

theorem C4_reward_above_one:
  "map_sum id (fst \<circ> fst)
     (evaluate_response (new_CompleteTutorialOrchestrator COLLABORATIVE demo_profile)
        (replicate 120 CHR ''a'') [] ''science'' HARD) = Inr (6 / 5)
   \<and> \<not> (6 / 5 \<le> (1::real))"
proof -
  have wf: "wf_q_values (dqn_agent (new_CompleteTutorialOrchestrator COLLABORATIVE demo_profile))"
    by (simp add: new_CompleteTutorialOrchestrator_def wf_q_values_new)
  have ns: "\<not> is_sentinel (replicate 120 CHR ''a'')"
    by (rule not_sentinel_long) (simp_all add: strip_replicate is_space_def)
  obtain res s' where
    e: "evaluate_response (new_CompleteTutorialOrchestrator COLLABORATIVE demo_profile)
          (replicate 120 CHR ''a'') [] ''science'' HARD = Inr (res, s')"
    and r: "fst res = response_reward
              (student_profile (new_CompleteTutorialOrchestrator COLLABORATIVE demo_profile))
              (replicate 120 CHR ''a'') ''science'' HARD"
    using evaluate_response_total [OF wf, of "replicate 120 CHR ''a''" "[]" "''science''" HARD] ns
    by auto
  have "fst res = 6 / 5"
    unfolding r
    by (simp add: response_reward_eq strip_replicate is_space_def base_reward_def
          difficulty_multiplier_def new_CompleteTutorialOrchestrator_def demo_profile_def
          new_StudentProfile_def)
  then show ?thesis
    using e by simp
qed

lemma submit_response_buckets:
  "fst (submit_response_evaluate resp) =
     (if length resp < 10 then 0.1 else if length resp < 50 then 0.3
      else if length resp < 100 then 0.6 else 0.8)"
  by (simp add: submit_response_evaluate_def Let_def)

text \<open>
  C5.  A response of exactly ten characters: the web service's evaluator puts it in the
  bucket from 10 up to 50 (reward 0.3), while \<^verbatim>\<open>evaluate_response\<close>, whose first
  boundary is at 20, gives it the lowest reward 0.1.
\<close>

theorem C5_ten_character_response:
  "map_sum id (fst \<circ> fst)
     (evaluate_response (new_CompleteTutorialOrchestrator COLLABORATIVE demo_profile)
        ''abcdefghij'' [] ''science'' EASY) = Inr (1 / 10)
   \<and> fst (submit_response_evaluate ''abcdefghij'') = 3 / 10"
proof -
  have wf: "wf_q_values (dqn_agent (new_CompleteTutorialOrchestrator COLLABORATIVE demo_profile))"
    by (simp add: new_CompleteTutorialOrchestrator_def wf_q_values_new)
  have st: "strip ''abcdefghij'' = ''abcdefghij''"
    by (simp add: strip_def is_space_def)
  have ns: "\<not> is_sentinel ''abcdefghij''"
    by (rule not_sentinel_long) (simp_all add: st)
  obtain res s' where
    e: "evaluate_response (new_CompleteTutorialOrchestrator COLLABORATIVE demo_profile)
          ''abcdefghij'' [] ''science'' EASY = Inr (res, s')"
    and r: "fst res = response_reward
              (student_profile (new_CompleteTutorialOrchestrator COLLABORATIVE demo_profile))
              ''abcdefghij'' ''science'' EASY"
    using evaluate_response_total [OF wf, of "''abcdefghij''" "[]" "''science''" EASY] ns
    by auto
  have "fst res = 1 / 10"
    unfolding r
    by (simp add: response_reward_eq st base_reward_def
          difficulty_multiplier_def new_CompleteTutorialOrchestrator_def demo_profile_def
          new_StudentProfile_def)
  then show ?thesis
    using e by (simp add: submit_response_buckets)
qed

section \<open>Claims about the adaptive selector\<close>

lemma bisect_done: "hi \<le> lo \<Longrightarrow> bisect a x lo hi = lo"
  by (subst bisect.simps) simp

lemma bisect_left:
  "lo < hi \<Longrightarrow> x < a ! ((lo + hi) div 2)
     \<Longrightarrow> bisect a x lo hi = bisect a x lo ((lo + hi) div 2)"
  by (subst bisect.simps) simp

lemma bisect_right:
  "lo < hi \<Longrightarrow> \<not> x < a ! ((lo + hi) div 2)
     \<Longrightarrow> bisect a x lo hi = bisect a x ((lo + hi) div 2 + 1) hi"
  by (subst bisect.simps) simp

lemma bisect_two: "bisect [a, b] x 0 (Suc 0) = (if x < a then 0 else Suc 0)"
  by (cases "x < a") (simp_all add: bisect_left bisect_right bisect_done)

lemma bisect_four:
  "bisect [a, b, c, d] x 0 3 =
     (if x < b then (if x < a then 0 else 1) else (if x < c then 2 else 3))"
  by (cases "x < b"; cases "x < a"; cases "x < c")
     (simp_all add: bisect_left bisect_right bisect_done)

lemma random_float_range: "0 \<le> fst (random_float r) \<and> fst (random_float r) < 1"
  by (simp add: random_float_def)

lemma random_choices_two:
  "random_choices [p, q] [w1, w2] r =
     (if w1 + w2 \<le> 0 then Inl ValueError
      else Inr (if fst (random_float r) * (w1 + w2) < w1 then p else q, snd (random_float r)))"
  by (simp add: random_choices_def accumulate_def Let_def bisect_two split_beta)

text \<open>
  C6.  Difficulty selection is a three-band policy on the overall performance: below 0.4
  it returns EASY and draws nothing; above 0.7 it returns MEDIUM when the draw is below
  0.6 and HARD otherwise; in between, the boundary values 0.4 and 0.7 included (both
  comparisons are strict), it returns EASY when the draw is below 0.3 and MEDIUM
  otherwise.  The draw is uniform on \<open>[0, 1)\<close>, so these are the weights 0.6/0.4 and
  0.3/0.7.
\<close>

theorem C6_difficulty_bands:
  "select_difficulty p r =
     (if overall_performance p < 0.4 then Inr (EASY, r)
      else if overall_performance p > 0.7
      then Inr (if fst (random_float r) < 0.6 then MEDIUM else HARD, snd (random_float r))
      else Inr (if fst (random_float r) < 0.3 then EASY else MEDIUM, snd (random_float r)))"
  by (simp add: select_difficulty_def Let_def random_choices_two)

theorem C6_difficulty_bands_witness:
  "select_difficulty (demo_profile \<lparr> overall_performance := 0.39 \<rparr>) (sconst 0)
     = Inr (EASY, sconst 0)
   \<and> select_difficulty (demo_profile \<lparr> overall_performance := 0.71 \<rparr>)
        (7205759403792794 ## sconst 0) = Inr (HARD, sconst 0)
   \<and> select_difficulty (demo_profile \<lparr> overall_performance := 0.71 \<rparr>) (sconst 0)
        = Inr (MEDIUM, sconst 0)
   \<and> select_difficulty (demo_profile \<lparr> overall_performance := 0.4 \<rparr>) (sconst 0)
        = Inr (EASY, sconst 0)
   \<and> select_difficulty (demo_profile \<lparr> overall_performance := 0.7 \<rparr>)
        (7205759403792794 ## sconst 0) = Inr (MEDIUM, sconst 0)"
  using C6_difficulty_bands [of "demo_profile \<lparr> overall_performance := 0.39 \<rparr>" "sconst 0"]
    C6_difficulty_bands [of "demo_profile \<lparr> overall_performance := 0.71 \<rparr>"
                            "7205759403792794 ## sconst 0"]
    C6_difficulty_bands [of "demo_profile \<lparr> overall_performance := 0.71 \<rparr>" "sconst 0"]
    C6_difficulty_bands [of "demo_profile \<lparr> overall_performance := 0.4 \<rparr>" "sconst 0"]
    C6_difficulty_bands [of "demo_profile \<lparr> overall_performance := 0.7 \<rparr>"
                            "7205759403792794 ## sconst 0"]
  by (simp add: random_float_def)





section \<open>Claims about the coordination policy\<close>

lemma select_difficulty_Inr: "\<exists>d r'. select_difficulty p r = Inr (d, r')"
  by (simp add: select_difficulty_def Let_def random_choices_two)

lemma random_choice_four:
  "random_choice [a, b, c, d] r = Inr ([a, b, c, d] ! (shd r mod 4), stl r)"
  by (simp add: random_choice_def randbelow_def)

lemma random_choice_three:
  "random_choice [a, b, c] r = Inr ([a, b, c] ! (shd r mod 3), stl r)"
  by (simp add: random_choice_def randbelow_def)

text \<open>
  C9.  In competitive mode, when the DQN agent's performance is strictly greater than the
  PPO agent's, the DQN agent leads: the topic is a uniform choice among the four topics
  and the difficulty is what the DQN difficulty selection returns on the rest of the
  random source.  Otherwise (a tie included) the PPO agent leads: the topic is what the
  PPO topic selection returns and the difficulty is a uniform choice among the three
  levels.
\<close>

theorem C9_competitive_leader:
  assumes m: "mode self = COMPETITIVE"
  shows "(dqn_performance (dqn_agent self) > ppo_performance (ppo_agent self) \<longrightarrow>
            (\<exists>d r2. select_difficulty (student_profile self) (stl r) = Inr (d, r2)
               \<and> coordinate_agents self r =
                   Inr ((Competitive_DQN_leads (dqn_performance (dqn_agent self)),
                         topics ! (shd r mod 4), d), r2)))
       \<and> (\<not> dqn_performance (dqn_agent self) > ppo_performance (ppo_agent self) \<longrightarrow>
            (case select_topic (ppo_agent self) (student_profile self) r of
               Inl e \<Rightarrow> coordinate_agents self r = Inl e
             | Inr (t, r1) \<Rightarrow>
                 coordinate_agents self r =
                   Inr ((Competitive_PPO_leads (ppo_performance (ppo_agent self)),
                         t, [EASY, MEDIUM, HARD] ! (shd r1 mod 3)), stl r1)))"
proof (intro conjI impI)
  assume lead: "dqn_performance (dqn_agent self) > ppo_performance (ppo_agent self)"
  obtain d r2 where sd: "select_difficulty (student_profile self) (stl r) = Inr (d, r2)"
    using select_difficulty_Inr by blast
  have "coordinate_agents self r =
          Inr ((Competitive_DQN_leads (dqn_performance (dqn_agent self)),
                topics ! (shd r mod 4), d), r2)"
    using m lead sd by (simp add: coordinate_agents_def random_choice_four topics_def)
  then show "\<exists>d r2. select_difficulty (student_profile self) (stl r) = Inr (d, r2)
               \<and> coordinate_agents self r =
                   Inr ((Competitive_DQN_leads (dqn_performance (dqn_agent self)),
                         topics ! (shd r mod 4), d), r2)"
    using sd by blast
next
  assume "\<not> dqn_performance (dqn_agent self) > ppo_performance (ppo_agent self)"
  then show "case select_topic (ppo_agent self) (student_profile self) r of
               Inl e \<Rightarrow> coordinate_agents self r = Inl e
             | Inr (t, r1) \<Rightarrow>
                 coordinate_agents self r =
                   Inr ((Competitive_PPO_leads (ppo_performance (ppo_agent self)),
                         t, [EASY, MEDIUM, HARD] ! (shd r1 mod 3)), stl r1)"
    using m by (simp add: coordinate_agents_def random_choice_three split: sum.splits)
qed

subsection \<open>Concrete rounds\<close>

lemma random_choices_four:
  "random_choices [p1, p2, p3, p4] [w1, w2, w3, w4] r =
     (if w1 + w2 + w3 + w4 \<le> 0 then Inl ValueError
      else Inr ([p1, p2, p3, p4] !
                  bisect [w1, w1 + w2, w1 + w2 + w3, w1 + w2 + w3 + w4]
                    (fst (random_float r) * (w1 + w2 + w3 + w4)) 0 3,
                snd (random_float r)))"
  by (simp add: random_choices_def accumulate_def Let_def split_beta numeral_3_eq_3)

lemma select_topic_demo_first:
  "shd r = 0 \<Longrightarrow> select_topic new_EnhancedPPOAgent demo_profile r = Inr (''mathematics'', stl r)"
  by (simp add: select_topic_def topics_def random_choices_four bisect_four topic_weight_def
        new_EnhancedPPOAgent_def demo_profile_def new_StudentProfile_def dict_get_def
        random_float_def)

lemma select_difficulty_demo_first:
  "shd r = 0 \<Longrightarrow> select_difficulty demo_profile r = Inr (EASY, stl r)"
  by (simp add: select_difficulty_def Let_def random_choices_two demo_profile_def
        new_StudentProfile_def random_float_def)

theorem C9_competitive_leader_witness:
  "mode dqn_ahead = COMPETITIVE
   \<and> coordinate_agents dqn_ahead (6 ## sconst 0)
       = Inr ((Competitive_DQN_leads 0.55, ''programming'', EASY), sconst 0)
   \<and> mode (new_CompleteTutorialOrchestrator COMPETITIVE demo_profile) = COMPETITIVE
   \<and> coordinate_agents (new_CompleteTutorialOrchestrator COMPETITIVE demo_profile)
         (0 ## 5 ## sconst 0)
       = Inr ((Competitive_PPO_leads 0.5, ''mathematics'', HARD), sconst 0)"
proof -
  let ?tie = "new_CompleteTutorialOrchestrator COMPETITIVE demo_profile"
  have m1: "mode dqn_ahead = COMPETITIVE"
    by (simp add: dqn_ahead_def new_CompleteTutorialOrchestrator_def)
  have m2: "mode ?tie = COMPETITIVE"
    by (simp add: new_CompleteTutorialOrchestrator_def)
  have lead: "dqn_performance (dqn_agent dqn_ahead) > ppo_performance (ppo_agent dqn_ahead)"
    by (simp add: dqn_ahead_def new_CompleteTutorialOrchestrator_def new_EnhancedPPOAgent_def)
  have tie: "\<not> dqn_performance (dqn_agent ?tie) > ppo_performance (ppo_agent ?tie)"
    by (simp add: new_CompleteTutorialOrchestrator_def new_EnhancedPPOAgent_def
          new_EnhancedDQNAgent_def)
  have sd: "select_difficulty (student_profile dqn_ahead) (stl (6 ## sconst 0))
              = Inr (EASY, sconst 0)"
    by (simp add: dqn_ahead_def new_CompleteTutorialOrchestrator_def
          select_difficulty_demo_first)
  have st: "select_topic (ppo_agent ?tie) (student_profile ?tie) (0 ## 5 ## sconst 0)
              = Inr (''mathematics'', 5 ## sconst 0)"
    by (simp add: new_CompleteTutorialOrchestrator_def select_topic_demo_first)
  obtain d r2 where a: "select_difficulty (student_profile dqn_ahead) (stl (6 ## sconst 0))
                          = Inr (d, r2)"
    and b: "coordinate_agents dqn_ahead (6 ## sconst 0) =
              Inr ((Competitive_DQN_leads (dqn_performance (dqn_agent dqn_ahead)),
                    topics ! (shd (6 ## sconst 0) mod 4), d), r2)"
    using C9_competitive_leader [OF m1, of "6 ## sconst 0"] lead by blast
  have dr: "d = EASY \<and> r2 = sconst 0"
    using a sd by simp
  have c1: "coordinate_agents dqn_ahead (6 ## sconst 0)
       = Inr ((Competitive_DQN_leads 0.55, ''programming'', EASY), sconst 0)"
    using b dr
    by (simp add: topics_def dqn_ahead_def new_CompleteTutorialOrchestrator_def)
  have c2: "coordinate_agents ?tie (0 ## 5 ## sconst 0)
       = Inr ((Competitive_PPO_leads 0.5, ''mathematics'', HARD), sconst 0)"
    using C9_competitive_leader [OF m2, of "0 ## 5 ## sconst 0"] tie
    by (simp add: st) (simp add: new_CompleteTutorialOrchestrator_def new_EnhancedPPOAgent_def)
  show ?thesis
    using m1 c1 m2 c2 by blast
qed

text \<open>
  C10.  From the same orchestrator state and the same random source, the hierarchical and
  the collaborative mode select the same topic and difficulty and leave the random source
  in the same state: the topic from the PPO topic selection, then the difficulty from the
  DQN difficulty selection.  They differ in the descriptive text only.
\<close>

theorem C10_hierarchical_collaborative_same:
  "map_sum id chosen_pair (coordinate_agents (self \<lparr> mode := HIERARCHICAL \<rparr>) r)
     = map_sum id chosen_pair (coordinate_agents (self \<lparr> mode := COLLABORATIVE \<rparr>) r)
   \<and> map_sum id chosen_pair (coordinate_agents (self \<lparr> mode := HIERARCHICAL \<rparr>) r)
     = (case select_topic (ppo_agent self) (student_profile self) r of
          Inl e \<Rightarrow> Inl e
        | Inr (t, r1) \<Rightarrow>
            (case select_difficulty (student_profile self) r1 of
               Inl e \<Rightarrow> Inl e
             | Inr (d, r2) \<Rightarrow> Inr ((t, d), r2)))"
  by (simp add: coordinate_agents_def chosen_pair_def split: sum.splits prod.splits)

theorem C10_hierarchical_collaborative_same_witness:
  "map_sum id chosen_pair
     (coordinate_agents
        ((new_CompleteTutorialOrchestrator HIERARCHICAL demo_profile) \<lparr> mode := HIERARCHICAL \<rparr>)
        (sconst 0))
     = Inr ((''mathematics'', EASY), sconst 0)
   \<and> map_sum id chosen_pair
     (coordinate_agents
        ((new_CompleteTutorialOrchestrator HIERARCHICAL demo_profile) \<lparr> mode := COLLABORATIVE \<rparr>)
        (sconst 0))
     = Inr ((''mathematics'', EASY), sconst 0)"
proof -
  let ?o = "new_CompleteTutorialOrchestrator HIERARCHICAL demo_profile"
  let ?sel = "case select_topic (ppo_agent ?o) (student_profile ?o) (sconst 0) of
                Inl e \<Rightarrow> Inl e
              | Inr (t, r1) \<Rightarrow>
                  (case select_difficulty (student_profile ?o) r1 of
                     Inl e \<Rightarrow> Inl e
                   | Inr (d, r2) \<Rightarrow> Inr ((t, d), r2))"
  have e: "map_sum id chosen_pair (coordinate_agents (?o \<lparr> mode := HIERARCHICAL \<rparr>) (sconst 0))
             = map_sum id chosen_pair
                 (coordinate_agents (?o \<lparr> mode := COLLABORATIVE \<rparr>) (sconst 0))"
    and h: "map_sum id chosen_pair (coordinate_agents (?o \<lparr> mode := HIERARCHICAL \<rparr>) (sconst 0))
             = ?sel"
    using C10_hierarchical_collaborative_same [of ?o "sconst 0"] by blast+
  have v: "?sel = Inr ((''mathematics'', EASY), sconst 0)"
    by (simp add: new_CompleteTutorialOrchestrator_def select_topic_demo_first
          select_difficulty_demo_first)
  have a: "map_sum id chosen_pair (coordinate_agents (?o \<lparr> mode := HIERARCHICAL \<rparr>) (sconst 0))
             = Inr ((''mathematics'', EASY), sconst 0)"
    using h v by (rule trans)
  have b: "map_sum id chosen_pair (coordinate_agents (?o \<lparr> mode := COLLABORATIVE \<rparr>) (sconst 0))
             = Inr ((''mathematics'', EASY), sconst 0)"
    using e [symmetric] a by (rule trans)
  show ?thesis
    using a b by (rule conjI)
qed

end
